theory Spec2Isabelle
  imports Main
begin

section \<open>The relational store (backend/models.py)\<close>

text \<open>
  The record access layer talks to PostgreSQL through psycopg2. A table is the list of
  its rows; a nullable column is an \<open>option\<close> (\<open>None\<close> is SQL NULL); a statement that
  PostgreSQL rejects is a \<open>pg_error\<close>. CURRENT_TIMESTAMP is the time of the statement's
  transaction: every operation that stamps a row takes it as the argument \<open>now\<close>.
  The model describes calls against a reachable database whose schema \<open>init_db\<close> has
  created. A string is the list of its characters. psycopg2 refuses a text argument
  that holds the character NUL before it sends anything (\<open>StringLiteralNUL\<close>, its
  ValueError); the server refuses a number that does not fit the type it is used at
  (\<open>NumericValueOutOfRange\<close>).
\<close>

type_synonym timestamp = nat

datatype pg_error =
    UniqueViolation string
  | SyntaxError string
  | InvalidRowCountInLimitClause
  | NumericValueOutOfRange string
  | StringLiteralNUL

record workflow_row =
  wf_id :: string
  wf_status :: string
  wf_comparison_mode :: string
  wf_created_at :: "timestamp option"
  wf_updated_at :: "timestamp option"
  wf_progress :: "int option"
  wf_current_stage :: "string option"
  wf_message :: "string option"
  wf_wi_document_path :: "string option"
  wf_item_master_path :: "string option"

record kb_row =
  kb_id :: int
  kb_material_name :: string
  kb_part_number :: "string option"
  kb_description :: "string option"
  kb_classification_label :: "int option"
  kb_confidence_level :: "string option"
  kb_supplier_info :: "string option"
  kb_created_at :: "timestamp option"
  kb_workflow_id :: "string option"
  kb_approved_by :: "string option"
  kb_approved_at :: "timestamp option"
  kb_metadata :: "string option"

record pa_row =
  pa_id :: int
  pa_workflow_id :: string
  pa_item_data :: string
  pa_status :: "string option"
  pa_created_at :: "timestamp option"
  pa_reviewed_by :: "string option"
  pa_reviewed_at :: "timestamp option"
  pa_review_notes :: "string option"

record db =
  workflows :: "workflow_row list"
  knowledge_base :: "kb_row list"
  pending_approvals :: "pa_row list"

subsection \<open>WorkflowModel\<close>

text \<open>
  \<open>create_workflow\<close>: the INSERT names four columns; status, created_at, updated_at and
  progress take their column defaults, current_stage and message stay NULL. The primary
  key rejects an identifier that is already there.
\<close>

definition create_workflow ::
  "string \<Rightarrow> string \<Rightarrow> string option \<Rightarrow> string option \<Rightarrow> timestamp \<Rightarrow> db \<Rightarrow> pg_error + db" where
  "create_workflow workflow_id comparison_mode wi_path item_path now d =
     (if workflow_id \<in> set (map wf_id (workflows d))
      then Inl (UniqueViolation ''workflows_pkey'')
      else Inr (d\<lparr>workflows := workflows d @
        [\<lparr>wf_id = workflow_id, wf_status = ''pending'', wf_comparison_mode = comparison_mode,
          wf_created_at = Some now, wf_updated_at = Some now, wf_progress = Some 0,
          wf_current_stage = None, wf_message = None,
          wf_wi_document_path = wi_path, wf_item_master_path = item_path\<rparr>]\<rparr>))"

text \<open>Python's truth value of an optional string: \<open>None\<close> and \<open>""\<close> are false.\<close>

definition truthy :: "string option \<Rightarrow> bool" where
  "truthy s = (case s of None \<Rightarrow> False | Some t \<Rightarrow> t \<noteq> [])"

definition has_nul :: "string \<Rightarrow> bool" where
  "has_nul s = (CHR 0x00 \<in> set s)"

definition in_int4 :: "int \<Rightarrow> bool" where
  "in_int4 p = (- (2 ^ 31) \<le> p \<and> p < 2 ^ 31)"

text \<open>
  \<open>update_workflow_status\<close> collects the assignments of its SET clause in the list
  \<open>updates\<close>, as the source does, and the UPDATE applies them to the rows whose id is
  \<open>workflow_id\<close>. A statement that matches no row succeeds and changes nothing. The
  arguments of the statement are the values of the assignments and the identifier: a
  text among them with a NUL is refused by psycopg2, and a progress outside the range
  of the INTEGER column by the server, which then changes no row.
\<close>

datatype wf_assignment =
    SetStatus string
  | SetUpdatedAtNow
  | SetProgress int
  | SetCurrentStage string
  | SetMessage string

fun assign :: "timestamp \<Rightarrow> wf_assignment \<Rightarrow> workflow_row \<Rightarrow> workflow_row" where
  "assign now (SetStatus s) r = r\<lparr>wf_status := s\<rparr>"
| "assign now SetUpdatedAtNow r = r\<lparr>wf_updated_at := Some now\<rparr>"
| "assign now (SetProgress p) r = r\<lparr>wf_progress := Some p\<rparr>"
| "assign now (SetCurrentStage s) r = r\<lparr>wf_current_stage := Some s\<rparr>"
| "assign now (SetMessage m) r = r\<lparr>wf_message := Some m\<rparr>"

definition status_updates ::
  "string \<Rightarrow> int option \<Rightarrow> string option \<Rightarrow> string option \<Rightarrow> wf_assignment list" where
  "status_updates status progress stage message =
     [SetStatus status, SetUpdatedAtNow]
     @ (case progress of None \<Rightarrow> [] | Some p \<Rightarrow> [SetProgress p])
     @ (if truthy stage then [SetCurrentStage (the stage)] else [])
     @ (if truthy message then [SetMessage (the message)] else [])"

fun assignment_text :: "wf_assignment \<Rightarrow> string option" where
  "assignment_text (SetStatus s) = Some s"
| "assignment_text SetUpdatedAtNow = None"
| "assignment_text (SetProgress p) = None"
| "assignment_text (SetCurrentStage s) = Some s"
| "assignment_text (SetMessage m) = Some m"

fun assignment_int :: "wf_assignment \<Rightarrow> int option" where
  "assignment_int (SetProgress p) = Some p"
| "assignment_int u = None"

definition update_workflow_status ::
  "string \<Rightarrow> string \<Rightarrow> int option \<Rightarrow> string option \<Rightarrow> string option \<Rightarrow> timestamp \<Rightarrow> db
     \<Rightarrow> pg_error + db" where
  "update_workflow_status workflow_id status progress stage message now d =
     (let updates = status_updates status progress stage message;
          texts = List.map_filter assignment_text updates @ [workflow_id];
          ints = List.map_filter assignment_int updates
      in if list_ex has_nul texts then Inl StringLiteralNUL
         else if list_ex (\<lambda>p. \<not> in_int4 p) ints
         then Inl (NumericValueOutOfRange ''integer out of range'')
         else Inr (d\<lparr>workflows :=
           map (\<lambda>r. if wf_id r = workflow_id then foldl (\<lambda>r' u. assign now u r') r updates else r)
             (workflows d)\<rparr>))"


subsection \<open>ORDER BY created_at DESC and LIMIT\<close>

text \<open>
  In descending order PostgreSQL puts NULL first. The order among rows with equal keys
  is not specified by SQL; the model keeps them in table order (a stable insertion
  sort). The server takes the LIMIT as a bigint: it rejects a number outside the range
  of that type, and a negative one.
\<close>

fun newer_eq :: "timestamp option \<Rightarrow> timestamp option \<Rightarrow> bool" where
  "newer_eq None b = True"
| "newer_eq (Some a) None = False"
| "newer_eq (Some a) (Some b) = (b \<le> a)"

fun insert_desc :: "('r \<Rightarrow> timestamp option) \<Rightarrow> 'r \<Rightarrow> 'r list \<Rightarrow> 'r list" where
  "insert_desc key x [] = [x]"
| "insert_desc key x (y # ys) =
     (if newer_eq (key x) (key y) then x # y # ys else y # insert_desc key x ys)"

definition order_by_desc :: "('r \<Rightarrow> timestamp option) \<Rightarrow> 'r list \<Rightarrow> 'r list" where
  "order_by_desc key rows = foldr (insert_desc key) rows []"

definition limit_rows :: "int \<Rightarrow> 'r list \<Rightarrow> pg_error + 'r list" where
  "limit_rows n rows =
     (if n < - (2 ^ 63) \<or> 2 ^ 63 \<le> n then Inl (NumericValueOutOfRange ''bigint out of range'')
      else if n < 0 then Inl InvalidRowCountInLimitClause
      else Inr (take (nat n) rows))"

subsection \<open>ILIKE\<close>

text \<open>
  \<open>like_match pattern text\<close> is PostgreSQL's LIKE: \<open>%\<close> matches any sequence of
  characters, \<open>_\<close> any single character, and the backslash (the default escape
  character, \<open>CHR 0x5C\<close>) makes the character after it literal. PostgreSQL rejects a
  pattern that ends in a lone backslash; the patterns of \<open>search_items\<close> end in
  \<open>%\<close>, and the model lets such a pattern match nothing. ILIKE applies the
  database's \<open>lower\<close> to the pattern and to the value and compares the results with
  LIKE. What \<open>lower\<close> does depends on the collation of the database: it is the
  parameter \<open>lower\<close> of the model. A NULL operand makes the comparison NULL, which a
  WHERE clause treats as not true, also under OR.
\<close>

fun like_match :: "string \<Rightarrow> string \<Rightarrow> bool" where
  "like_match [] s = (s = [])"
| "like_match (p # ps) s =
     (if p = CHR ''%'' then
        like_match ps s \<or> (case s of [] \<Rightarrow> False | c # t \<Rightarrow> like_match (p # ps) t)
      else if p = CHR ''_'' then
        (case s of [] \<Rightarrow> False | c # t \<Rightarrow> like_match ps t)
      else if p = CHR 0x5C then
        (case ps of [] \<Rightarrow> False
         | q # qs \<Rightarrow> (case s of [] \<Rightarrow> False | c # t \<Rightarrow> c = q \<and> like_match qs t))
      else (case s of [] \<Rightarrow> False | c # t \<Rightarrow> c = p \<and> like_match ps t))"

definition ilike :: "(string \<Rightarrow> string) \<Rightarrow> string option \<Rightarrow> string \<Rightarrow> bool" where
  "ilike lower v pat =
     (case v of None \<Rightarrow> False
      | Some s \<Rightarrow> like_match (lower pat) (lower s))"

subsection \<open>KnowledgeBaseModel\<close>

definition search_items ::
  "(string \<Rightarrow> string) \<Rightarrow> string \<Rightarrow> int \<Rightarrow> db \<Rightarrow> pg_error + kb_row list" where
  "search_items lower query limit d =
     (if query \<noteq> [] then
        (let pat = ''%'' @ query @ ''%''
         in if has_nul pat then Inl StringLiteralNUL
            else limit_rows limit (order_by_desc kb_created_at
              (filter (\<lambda>r. ilike lower (Some (kb_material_name r)) pat
                          \<or> ilike lower (kb_part_number r) pat
                          \<or> ilike lower (kb_description r) pat)
                 (knowledge_base d))))
      else limit_rows limit (order_by_desc kb_created_at (knowledge_base d)))"

subsection \<open>Python numbers\<close>

text \<open>
  \<open>get_stats\<close> computes its rate in binary floating point. A float that is not
  negative is \<open>Float m e\<close>, the number \<open>m * 2 ^ e\<close>, with \<open>2 ^ 52 \<le> m < 2 ^ 53\<close>
  for every float but zero, which is \<open>Float 0 0\<close>. The exponent range of binary64 is not
  reached by the numbers of this module and is not modelled.
  \<open>nearest_double p q\<close> is the float nearest to the fraction \<open>p / q\<close>, a tie going
  to the even mantissa: the rounding of IEEE 754 that Python's operations use.
\<close>

datatype py_float = Float nat int

datatype py_number = PyInt int | PyFloat py_float

fun bit_length :: "nat \<Rightarrow> nat" where
  "bit_length n = (if n = 0 then 0 else Suc (bit_length (n div 2)))"

declare bit_length.simps [simp del]

text \<open>The integer nearest to \<open>p / q\<close>, a tie going to the even one.\<close>

definition rne_div :: "nat \<Rightarrow> nat \<Rightarrow> nat" where
  "rne_div p q =
     (let f = p div q; r = p mod q
      in if 2 * r < q then f
         else if q < 2 * r then f + 1
         else if even f then f else f + 1)"

definition nearest_double :: "nat \<Rightarrow> nat \<Rightarrow> py_float" where
  "nearest_double p q =
     (if p = 0 then Float 0 0
      else
        (let e0 = int (bit_length p) - int (bit_length q) - 53;
             e = (if 2 ^ 53 * (q * 2 ^ nat e0) \<le> p * 2 ^ nat (- e0) then e0 + 1 else e0);
             m = rne_div (p * 2 ^ nat (- e)) (q * 2 ^ nat e)
         in if m = 2 ^ 53 then Float (2 ^ 52) (e + 1) else Float m e))"

text \<open>
  \<open>a / b\<close> on two integers that are not negative (the counts of \<open>get_stats\<close>): the
  float nearest to the quotient; \<open>None\<close> is ZeroDivisionError.
\<close>

definition true_div :: "nat \<Rightarrow> nat \<Rightarrow> py_float option" where
  "true_div a b = (if b = 0 then None else Some (nearest_double a b))"

text \<open>\<open>x * c\<close> for a float and an integer that is a float exactly: the float nearest to
  the product.\<close>

fun float_mul :: "py_float \<Rightarrow> nat \<Rightarrow> py_float" where
  "float_mul (Float m e) c = nearest_double (m * c * 2 ^ nat e) (2 ^ nat (- e))"

text \<open>
  \<open>round(x, 1)\<close> on a float: the decimal with one digit after the point that is
  nearest to the value of the float, a tie going to the even digit, and then the float
  nearest to that decimal.
\<close>

fun round1 :: "py_float \<Rightarrow> py_float" where
  "round1 (Float m e) =
     nearest_double (rne_div (10 * m * 2 ^ nat e) (2 ^ nat (- e))) 10"

text \<open>
  \<open>get_stats\<close>: three counts and the rate. \<open>COUNT(DISTINCT workflow_id)\<close> counts
  the different values that are not NULL. On an empty table the rate is the integer 0,
  which \<open>round\<close> leaves an integer.
\<close>

record stats =
  total_items :: int
  total_workflows :: int
  total_matches :: int
  match_rate :: py_number

definition get_stats :: "db \<Rightarrow> stats option" where
  "get_stats d =
     (let total_items = length (knowledge_base d);
          total_workflows =
            length (remdups (List.map_filter kb_workflow_id (knowledge_base d)));
          high_confidence_items =
            length (filter (\<lambda>r. kb_confidence_level r = Some ''high'') (knowledge_base d))
      in if 0 < total_items then
           (case true_div high_confidence_items total_items of
              None \<Rightarrow> None
            | Some ratio \<Rightarrow>
                Some \<lparr>total_items = int total_items, total_workflows = int total_workflows,
                      total_matches = int total_items,
                      match_rate = PyFloat (round1 (float_mul ratio 100))\<rparr>)
         else
           Some \<lparr>total_items = int total_items, total_workflows = int total_workflows,
                 total_matches = int total_items, match_rate = PyInt 0\<rparr>)"

subsection \<open>PendingApprovalModel\<close>

definition get_pending_items :: "string option \<Rightarrow> db \<Rightarrow> pa_row list" where
  "get_pending_items workflow_id d =
     (if truthy workflow_id then
        order_by_desc pa_created_at
          (filter (\<lambda>r. pa_workflow_id r = the workflow_id \<and> pa_status r = Some ''pending'')
             (pending_approvals d))
      else
        order_by_desc pa_created_at
          (filter (\<lambda>r. pa_status r = Some ''pending'') (pending_approvals d)))"

text \<open>
  \<open>update_approval_status\<close> builds the text of its statement from the number of
  identifiers and hands it, with the argument list, to the server. The result carries
  what the call did on the connection, in order. The statement text is the source's
  literal with its white space collapsed. PostgreSQL's grammar wants at least one
  expression between the parentheses of \<open>IN (...)\<close>: it rejects the statement with a
  syntax error otherwise, the exception leaves the function, and nothing is committed.
\<close>

datatype sql_value = Null | Text string | Integer int

datatype db_event =
    Connect
  | Execute string "sql_value list"
  | Commit
  | CloseCursor
  | CloseConnection

fun join_comma :: "string list \<Rightarrow> string" where
  "join_comma [] = []"
| "join_comma [x] = x"
| "join_comma (x # y # ys) = x @ '','' @ join_comma (y # ys)"

definition placeholders :: "int list \<Rightarrow> string" where
  "placeholders item_ids = join_comma (map (\<lambda>_. ''%s'') item_ids)"

definition opt_text :: "string option \<Rightarrow> sql_value" where
  "opt_text v = (case v of None \<Rightarrow> Null | Some s \<Rightarrow> Text s)"

definition approval_sql :: "int list \<Rightarrow> string" where
  "approval_sql item_ids =
     ''UPDATE pending_approvals SET status = %s, reviewed_by = %s, '' @
     ''reviewed_at = CURRENT_TIMESTAMP, review_notes = %s WHERE id IN ('' @
     placeholders item_ids @ '')''"

definition in_list_parses :: "string \<Rightarrow> bool" where
  "in_list_parses list_text = (list_text \<noteq> [])"

definition update_approval_status ::
  "int list \<Rightarrow> string option \<Rightarrow> string option \<Rightarrow> string option \<Rightarrow> timestamp \<Rightarrow> db
     \<Rightarrow> (pg_error + unit) \<times> db_event list \<times> db" where
  "update_approval_status item_ids status reviewer notes now d =
     (let sql = approval_sql item_ids;
          args = [opt_text status, opt_text reviewer, opt_text notes] @ map Integer item_ids
      in if in_list_parses (placeholders item_ids) then
           (Inr (), [Connect, Execute sql args, Commit, CloseCursor, CloseConnection],
            d\<lparr>pending_approvals :=
                map (\<lambda>r. if pa_id r \<in> set item_ids
                          then r\<lparr>pa_status := status, pa_reviewed_by := reviewer,
                                 pa_reviewed_at := Some now, pa_review_notes := notes\<rparr>
                          else r)
                  (pending_approvals d)\<rparr>)
         else
           (Inl (SyntaxError (''syntax error at or near '' @ [CHR 0x22] @ '')'' @ [CHR 0x22])),
            [Connect, Execute sql args], d))"

subsection \<open>init_db\<close>

text \<open>
  The schema catalog maps the name of a relation to its column definitions and its rows.
  \<open>CREATE TABLE IF NOT EXISTS\<close> adds an empty table when no relation has the name and
  does nothing otherwise.
\<close>

datatype column_type = TEXT | INTEGER | SERIAL | TIMESTAMP

datatype column_constraint =
    PRIMARY_KEY
  | NOT_NULL
  | DEFAULT_TEXT string
  | DEFAULT_INT int
  | DEFAULT_CURRENT_TIMESTAMP

datatype column = Column string column_type "column_constraint list"

record relation =
  rel_columns :: "column list"
  rel_rows :: "sql_value list list"

type_synonym catalog = "string \<rightharpoonup> relation"

definition create_table_if_not_exists :: "string \<Rightarrow> column list \<Rightarrow> catalog \<Rightarrow> catalog" where
  "create_table_if_not_exists name cols c =
     (case c name of
        None \<Rightarrow> c(name \<mapsto> \<lparr>rel_columns = cols, rel_rows = []\<rparr>)
      | Some r \<Rightarrow> c)"

definition workflows_columns :: "column list" where
  "workflows_columns =
     [Column ''id'' TEXT [PRIMARY_KEY],
      Column ''status'' TEXT [NOT_NULL, DEFAULT_TEXT ''pending''],
      Column ''comparison_mode'' TEXT [NOT_NULL, DEFAULT_TEXT ''full''],
      Column ''created_at'' TIMESTAMP [DEFAULT_CURRENT_TIMESTAMP],
      Column ''updated_at'' TIMESTAMP [DEFAULT_CURRENT_TIMESTAMP],
      Column ''progress'' INTEGER [DEFAULT_INT 0],
      Column ''current_stage'' TEXT [],
      Column ''message'' TEXT [],
      Column ''wi_document_path'' TEXT [],
      Column ''item_master_path'' TEXT []]"

definition knowledge_base_columns :: "column list" where
  "knowledge_base_columns =
     [Column ''id'' SERIAL [PRIMARY_KEY],
      Column ''material_name'' TEXT [NOT_NULL],
      Column ''part_number'' TEXT [],
      Column ''description'' TEXT [],
      Column ''classification_label'' INTEGER [],
      Column ''confidence_level'' TEXT [],
      Column ''supplier_info'' TEXT [],
      Column ''created_at'' TIMESTAMP [DEFAULT_CURRENT_TIMESTAMP],
      Column ''workflow_id'' TEXT [],
      Column ''approved_by'' TEXT [],
      Column ''approved_at'' TIMESTAMP [],
      Column ''metadata'' TEXT []]"

definition pending_approvals_columns :: "column list" where
  "pending_approvals_columns =
     [Column ''id'' SERIAL [PRIMARY_KEY],
      Column ''workflow_id'' TEXT [NOT_NULL],
      Column ''item_data'' TEXT [NOT_NULL],
      Column ''status'' TEXT [DEFAULT_TEXT ''pending''],
      Column ''created_at'' TIMESTAMP [DEFAULT_CURRENT_TIMESTAMP],
      Column ''reviewed_by'' TEXT [],
      Column ''reviewed_at'' TIMESTAMP [],
      Column ''review_notes'' TEXT []]"

definition workflow_results_columns :: "column list" where
  "workflow_results_columns =
     [Column ''id'' SERIAL [PRIMARY_KEY],
      Column ''workflow_id'' TEXT [NOT_NULL],
      Column ''results_data'' TEXT [NOT_NULL],
      Column ''summary_data'' TEXT [],
      Column ''created_at'' TIMESTAMP [DEFAULT_CURRENT_TIMESTAMP]]"

definition init_db :: "catalog \<Rightarrow> catalog" where
  "init_db c =
     create_table_if_not_exists ''workflow_results'' workflow_results_columns
      (create_table_if_not_exists ''pending_approvals'' pending_approvals_columns
        (create_table_if_not_exists ''knowledge_base'' knowledge_base_columns
          (create_table_if_not_exists ''workflows'' workflows_columns c)))"

section \<open>The artifact store (backend/services/file_storage_service.py)\<close>

text \<open>
  The file system holds the regular files with their bytes and the directories. Both
  are named by their resolved path: absolute, its components divided by single
  slashes, none of them \<open>.\<close> or \<open>..\<close>; the root directory is the empty string and
  always exists. \<open>fault\<close> is what the environment makes fail (disk full, permission
  denied, file name too long, ...): an errno for each call it refuses, the call named
  with the path string it was given. Symbolic links are not modelled, and a relative
  path is resolved from the root: the service builds absolute paths only. Bytes are
  \<open>char\<close>s.
\<close>

type_synonym bytes = string

datatype os_errno = ENOENT | EIO | EACCES | EEXIST | ENOTDIR | EISDIR | ENOSPC | ENAMETOOLONG

datatype io_op =
    Stat string
  | MkDir string
  | OpenWrite string
  | WriteData string
  | OpenRead string
  | ReadData string

record fs =
  files :: "string \<rightharpoonup> bytes"
  dirs :: "string set"
  fault :: "io_op \<Rightarrow> os_errno option"

text \<open>
  The exceptions of the module. \<open>OSError e p\<close> is the subclass of OSError that the
  errno selects (PermissionError for EACCES, FileNotFoundError for ENOENT,
  FileExistsError for EEXIST, ...), raised for a call of the operating system, with
  the file name when the call has one. \<open>FileNotFoundError m\<close> is the exception
  \<open>get_results\<close> raises itself, with its message. \<open>ValueError\<close> is raised for a
  path with a NUL, for a closed stream, and stands for the decoder's JSONDecodeError.
\<close>

datatype py_exception =
    OSError os_errno "string option"
  | NameError string
  | ValueError string
  | TypeError string
  | FileNotFoundError string
  | RuntimeError string

fun errno_text :: "os_errno \<Rightarrow> string" where
  "errno_text ENOENT = ''[Errno 2] No such file or directory''"
| "errno_text EIO = ''[Errno 5] Input/output error''"
| "errno_text EACCES = ''[Errno 13] Permission denied''"
| "errno_text EEXIST = ''[Errno 17] File exists''"
| "errno_text ENOTDIR = ''[Errno 20] Not a directory''"
| "errno_text EISDIR = ''[Errno 21] Is a directory''"
| "errno_text ENOSPC = ''[Errno 28] No space left on device''"
| "errno_text ENAMETOOLONG = ''[Errno 36] File name too long''"

text \<open>
  \<open>exc_str e\<close> is Python's \<open>str(e)\<close>, which the f-strings of the handlers print. The
  file name of an OSError is printed between single quotes (\<open>CHR 0x27\<close>), as
  \<open>repr\<close> does for a name without quotes, backslashes or control characters.
\<close>

fun exc_str :: "py_exception \<Rightarrow> string" where
  "exc_str (OSError e None) = errno_text e"
| "exc_str (OSError e (Some p)) = errno_text e @ '': '' @ [CHR 0x27] @ p @ [CHR 0x27]"
| "exc_str (NameError n) = ''name '' @ [CHR 0x27] @ n @ [CHR 0x27] @ '' is not defined''"
| "exc_str (ValueError m) = m"
| "exc_str (TypeError m) = m"
| "exc_str (FileNotFoundError m) = m"
| "exc_str (RuntimeError m) = m"

subsection \<open>Paths\<close>

text \<open>\<open>os.path.join\<close> of two components (posixpath): an absolute second component
  replaces the first.\<close>

definition path_join :: "string \<Rightarrow> string \<Rightarrow> string" where
  "path_join a b =
     (if take 1 b = ''/'' then b
      else if a = [] \<or> last a = CHR ''/'' then a @ b
      else a @ ''/'' @ b)"

text \<open>\<open>p.split('/')\<close>: the components of a path string.\<close>

fun split_slash :: "string \<Rightarrow> string list" where
  "split_slash [] = [[]]"
| "split_slash (c # cs) =
     (if c = CHR ''/'' then [] # split_slash cs
      else (case split_slash cs of [] \<Rightarrow> [[c]] | x # xs \<Rightarrow> (c # x) # xs))"

definition rstrip_slash :: "string \<Rightarrow> string" where
  "rstrip_slash p = rev (dropWhile (\<lambda>c. c = CHR ''/'') (rev p))"

text \<open>\<open>os.path.split\<close> (posixpath): the part before the last slash, without its
  trailing slashes unless it is slashes only, and the part after it.\<close>

definition posix_split :: "string \<Rightarrow> string \<times> string" where
  "posix_split p =
     (let tail = rev (takeWhile (\<lambda>c. c \<noteq> CHR ''/'') (rev p));
          head = rev (dropWhile (\<lambda>c. c \<noteq> CHR ''/'') (rev p))
      in (if rstrip_slash head = [] then head else rstrip_slash head, tail))"

text \<open>
  The operating system resolves a path component by component. Each component is
  looked up in a directory that must exist; \<open>.\<close> and the empty component stay in it,
  \<open>..\<close> goes to its parent. The result names the last component, which need not
  exist. The empty path names nothing.
\<close>

definition is_dir :: "fs \<Rightarrow> string \<Rightarrow> bool" where
  "is_dir s p = (p = [] \<or> p \<in> dirs s)"

definition parent_dir :: "string \<Rightarrow> string" where
  "parent_dir p = rev (drop 1 (dropWhile (\<lambda>c. c \<noteq> CHR ''/'') (rev p)))"

fun walk :: "fs \<Rightarrow> string \<Rightarrow> string list \<Rightarrow> os_errno + string" where
  "walk s cur [] = Inr cur"
| "walk s cur (c # cs) =
     (if \<not> is_dir s cur then Inl (if files s cur = None then ENOENT else ENOTDIR)
      else if c = [] \<or> c = ''.'' then walk s cur cs
      else if c = ''..'' then walk s (parent_dir cur) cs
      else walk s (cur @ ''/'' @ c) cs)"

definition resolve :: "fs \<Rightarrow> string \<Rightarrow> os_errno + string" where
  "resolve s p = (if p = [] then Inl ENOENT else walk s [] (split_slash p))"

subsection \<open>The operating system's calls\<close>

text \<open>
  Python raises ValueError for a path with a NUL before it calls the operating system.
  \<open>os_stat\<close> tells whether the path names a directory (\<open>True\<close>) or a regular file.
  \<open>os.path.exists\<close> and \<open>os.path.isdir\<close> answer \<open>False\<close> whenever \<open>os.stat\<close>
  raises.
\<close>

definition os_stat :: "string \<Rightarrow> fs \<Rightarrow> py_exception + bool" where
  "os_stat p s =
     (if has_nul p then Inl (ValueError ''embedded null byte'')
      else
        (case fault s (Stat p) of
           Some e \<Rightarrow> Inl (OSError e (Some p))
         | None \<Rightarrow>
             (case resolve s p of
                Inl e \<Rightarrow> Inl (OSError e (Some p))
              | Inr q \<Rightarrow>
                  (if is_dir s q then Inr True
                   else if files s q \<noteq> None then Inr False
                   else Inl (OSError ENOENT (Some p))))))"

definition os_path_exists :: "string \<Rightarrow> fs \<Rightarrow> bool" where
  "os_path_exists p s = (case os_stat p s of Inl e \<Rightarrow> False | Inr d \<Rightarrow> True)"

definition os_path_isdir :: "string \<Rightarrow> fs \<Rightarrow> bool" where
  "os_path_isdir p s = (case os_stat p s of Inl e \<Rightarrow> False | Inr d \<Rightarrow> d)"

text \<open>\<open>os.mkdir\<close>: the directory that holds the new one must exist, and nothing may
  have the name. Trailing slashes of the path are ignored.\<close>

definition os_mkdir :: "string \<Rightarrow> fs \<Rightarrow> (py_exception + unit) \<times> fs" where
  "os_mkdir p s =
     (if has_nul p then (Inl (ValueError ''embedded null byte''), s)
      else
        (case fault s (MkDir p) of
           Some e \<Rightarrow> (Inl (OSError e (Some p)), s)
         | None \<Rightarrow>
             (case resolve s (if rstrip_slash p = [] then p else rstrip_slash p) of
                Inl e \<Rightarrow> (Inl (OSError e (Some p)), s)
              | Inr q \<Rightarrow>
                  (if is_dir s q \<or> files s q \<noteq> None then (Inl (OSError EEXIST (Some p)), s)
                   else (Inr (), s\<lparr>dirs := insert q (dirs s)\<rparr>)))))"

text \<open>
  \<open>os.makedirs(name, exist_ok=True)\<close>, as the standard library writes it: when the
  part before the last component does not exist it is made first, by the same
  function; then \<open>os.mkdir\<close> makes the directory, and an OSError of it is dropped when
  the path names a directory afterwards.
\<close>

definition mkdir_exist_ok :: "string \<Rightarrow> fs \<Rightarrow> (py_exception + unit) \<times> fs" where
  "mkdir_exist_ok name s =
     (case os_mkdir name s of
        (Inl (OSError e p), s1) \<Rightarrow>
          (if os_path_isdir name s1 then (Inr (), s1) else (Inl (OSError e p), s1))
      | (r, s1) \<Rightarrow> (r, s1))"

definition makedirs_split :: "string \<Rightarrow> string \<times> string" where
  "makedirs_split name =
     (if snd (posix_split name) = [] then posix_split (fst (posix_split name))
      else posix_split name)"

definition is_file_exists_error :: "py_exception \<Rightarrow> bool" where
  "is_file_exists_error e = (case e of OSError EEXIST p \<Rightarrow> True | _ \<Rightarrow> False)"

function os_makedirs :: "string \<Rightarrow> fs \<Rightarrow> (py_exception + unit) \<times> fs" where
  "os_makedirs name s =
     (if fst (makedirs_split name) \<noteq> [] \<and> snd (makedirs_split name) \<noteq> []
         \<and> \<not> os_path_exists (fst (makedirs_split name)) s
      then
        (case os_makedirs (fst (makedirs_split name)) s of
           (Inl e, s1) \<Rightarrow>
             (if is_file_exists_error e
              then (if snd (makedirs_split name) = ''.'' then (Inr (), s1)
                    else mkdir_exist_ok name s1)
              else (Inl e, s1))
         | (Inr u, s1) \<Rightarrow>
             (if snd (makedirs_split name) = ''.'' then (Inr (), s1)
              else mkdir_exist_ok name s1))
      else mkdir_exist_ok name s)"
  by pat_completeness auto

lemma rstrip_slash_length: "length (rstrip_slash p) \<le> length p"
  by (simp add: rstrip_slash_def) (metis length_dropWhile_le length_rev)

lemma posix_split_length:
  "length (fst (posix_split p)) + length (snd (posix_split p)) \<le> length p"
proof -
  let ?t = "takeWhile (\<lambda>c. c \<noteq> CHR ''/'') (rev p)"
  let ?h = "dropWhile (\<lambda>c. c \<noteq> CHR ''/'') (rev p)"
  have "length ?t + length ?h = length p"
    by (metis length_append length_rev takeWhile_dropWhile_id)
  moreover have "length (fst (posix_split p)) \<le> length ?h"
    using rstrip_slash_length [of "rev ?h"] by (simp add: posix_split_def Let_def)
  moreover have "length (snd (posix_split p)) = length ?t"
    by (simp add: posix_split_def Let_def)
  ultimately show ?thesis by linarith
qed

lemma posix_split_shorter:
  "snd (posix_split p) \<noteq> [] \<Longrightarrow> length (fst (posix_split p)) < length p"
proof -
  assume "snd (posix_split p) \<noteq> []"
  then have "0 < length (snd (posix_split p))" by simp
  with posix_split_length [of p] show ?thesis by linarith
qed

lemma makedirs_split_shorter:
  "snd (makedirs_split name) \<noteq> [] \<Longrightarrow> length (fst (makedirs_split name)) < length name"
proof -
  assume a: "snd (makedirs_split name) \<noteq> []"
  show ?thesis
  proof (cases "snd (posix_split name) = []")
    case True
    with a have "snd (posix_split (fst (posix_split name))) \<noteq> []"
      by (simp add: makedirs_split_def)
    then have "length (fst (posix_split (fst (posix_split name)))) < length (fst (posix_split name))"
      by (rule posix_split_shorter)
    moreover have "length (fst (posix_split name)) \<le> length name"
      using posix_split_length [of name] by linarith
    ultimately show ?thesis using True by (simp add: makedirs_split_def)
  next
    case False
    then show ?thesis
      using posix_split_shorter [of name] by (simp add: makedirs_split_def)
  qed
qed

termination os_makedirs
  by (relation "measure (\<lambda>(name, s). length name)") (simp_all add: makedirs_split_shorter)

declare os_makedirs.simps [simp del]


text \<open>\<open>open(p, "w")\<close> and \<open>open(p, "wb")\<close>: the file is created, or truncated when it
  exists. The result is the file that was opened.\<close>

definition open_write :: "string \<Rightarrow> fs \<Rightarrow> (py_exception + string) \<times> fs" where
  "open_write p s =
     (if has_nul p then (Inl (ValueError ''embedded null byte''), s)
      else
        (case fault s (OpenWrite p) of
           Some e \<Rightarrow> (Inl (OSError e (Some p)), s)
         | None \<Rightarrow>
             (case resolve s p of
                Inl e \<Rightarrow> (Inl (OSError e (Some p)), s)
              | Inr q \<Rightarrow>
                  (if is_dir s q then (Inl (OSError EISDIR (Some p)), s)
                   else (Inr q, s\<lparr>files := (files s)(q \<mapsto> [])\<rparr>)))))"

text \<open>Writing to the open file appends to what has been written since it was opened.
  A write that fails is modelled as writing nothing.\<close>

definition write_data :: "string \<Rightarrow> bytes \<Rightarrow> fs \<Rightarrow> (py_exception + unit) \<times> fs" where
  "write_data q content s =
     (case fault s (WriteData q) of
        Some e \<Rightarrow> (Inl (OSError e None), s)
      | None \<Rightarrow>
          (Inr (), s\<lparr>files := (files s)(q \<mapsto>
             (case files s q of None \<Rightarrow> content | Some old \<Rightarrow> old @ content))\<rparr>))"

definition open_read :: "string \<Rightarrow> fs \<Rightarrow> py_exception + string" where
  "open_read p s =
     (if has_nul p then Inl (ValueError ''embedded null byte'')
      else
        (case fault s (OpenRead p) of
           Some e \<Rightarrow> Inl (OSError e (Some p))
         | None \<Rightarrow>
             (case resolve s p of
                Inl e \<Rightarrow> Inl (OSError e (Some p))
              | Inr q \<Rightarrow>
                  (if is_dir s q then Inl (OSError EISDIR (Some p))
                   else (case files s q of
                           None \<Rightarrow> Inl (OSError ENOENT (Some p))
                         | Some content \<Rightarrow> Inr q)))))"

definition read_data :: "string \<Rightarrow> fs \<Rightarrow> py_exception + bytes" where
  "read_data q s =
     (case fault s (ReadData q) of
        Some e \<Rightarrow> Inl (OSError e None)
      | None \<Rightarrow> (case files s q of None \<Rightarrow> Inl (OSError EIO None) | Some content \<Rightarrow> Inr content))"

subsection \<open>The names of the module\<close>

text \<open>
  A global name is looked up when the statement that uses it runs. The module binds
  the names below (its four imports and its class); none of Python's builtins is called
  \<open>json\<close>. A name that is not bound raises NameError.
\<close>

definition module_names :: "string list" where
  "module_names = [''os'', ''shutil'', ''logging'', ''UploadFile'', ''FileStorageService'']"

definition global_name :: "string \<Rightarrow> py_exception + unit" where
  "global_name n = (if n \<in> set module_names then Inr () else Inl (NameError n))"

subsection \<open>FileStorageService\<close>

definition base_dir :: string where
  "base_dir = ''/var/data''"

definition upload_dir :: string where
  "upload_dir = path_join base_dir ''uploads''"

definition results_dir :: string where
  "results_dir = path_join base_dir ''results''"

text \<open>The constructor creates the two directories; a failure leaves it as raised.\<close>

definition service_init :: "fs \<Rightarrow> (py_exception + unit) \<times> fs" where
  "service_init s =
     (case os_makedirs upload_dir s of
        (Inl e, s1) \<Rightarrow> (Inl e, s1)
      | (Inr u, s1) \<Rightarrow> os_makedirs results_dir s1)"

text \<open>
  An upload: the name the client sent, which may be missing, and what reading its
  stream to the end gives, its bytes or the exception of the read.
\<close>

record upload_file =
  filename :: "string option"
  file_stream :: "py_exception + bytes"

text \<open>
  \<open>save_file\<close>: the directory is created and the path of the file is joined before
  the \<open>try\<close>, so what they raise is not caught (\<open>os.path.join\<close> raises TypeError for a
  missing name); what \<open>open\<close> and \<open>shutil.copyfileobj\<close> raise inside the \<open>try\<close> is
  raised again as RuntimeError with the cause's text.
\<close>

definition save_file :: "upload_file \<Rightarrow> string \<Rightarrow> fs \<Rightarrow> (py_exception + string) \<times> fs" where
  "save_file file workflow_id s =
     (let workflow_path = path_join upload_dir workflow_id
      in case os_makedirs workflow_path s of
           (Inl e, s1) \<Rightarrow> (Inl e, s1)
         | (Inr u, s1) \<Rightarrow>
             (case filename file of
                None \<Rightarrow>
                  (Inl (TypeError (''join() argument must be str, bytes, or os.PathLike object, not ''
                     @ [CHR 0x27] @ ''NoneType'' @ [CHR 0x27])),
                   s1)
              | Some name \<Rightarrow>
                  (let file_path = path_join workflow_path name
                   in case open_write file_path s1 of
                        (Inl e, s2) \<Rightarrow>
                          (Inl (RuntimeError (''Failed to save file: '' @ exc_str e)), s2)
                      | (Inr buffer, s2) \<Rightarrow>
                          (case file_stream file of
                             Inl e \<Rightarrow>
                               (Inl (RuntimeError (''Failed to save file: '' @ exc_str e)), s2)
                           | Inr content \<Rightarrow>
                               (case write_data buffer content s2 of
                                  (Inl e, s3) \<Rightarrow>
                                    (Inl (RuntimeError
                                       (''Failed to save file: '' @ exc_str e)), s3)
                                | (Inr u, s3) \<Rightarrow> (Inr file_path, s3))))))"

text \<open>
  \<open>save_results\<close> and \<open>get_results\<close> call \<open>json.dump\<close> and \<open>json.load\<close> inside
  their \<open>try\<close>, after the file is open. What the two functions of the json library
  would do is the parameters \<open>dump\<close> (the text of a document, with \<open>indent=2\<close>) and
  \<open>load\<close> (the document of a text, or the decoder's exception).
\<close>

definition save_results ::
  "('doc \<Rightarrow> string) \<Rightarrow> string \<Rightarrow> 'doc \<Rightarrow> fs \<Rightarrow> (py_exception + string) \<times> fs" where
  "save_results dump workflow_id results_data s =
     (let results_file = path_join results_dir (workflow_id @ ''.json'')
      in case open_write results_file s of
           (Inl e, s1) \<Rightarrow> (Inl (RuntimeError (''Failed to save results: '' @ exc_str e)), s1)
         | (Inr f, s1) \<Rightarrow>
             (case global_name ''json'' of
                Inl e \<Rightarrow> (Inl (RuntimeError (''Failed to save results: '' @ exc_str e)), s1)
              | Inr u \<Rightarrow>
                  (case write_data f (dump results_data) s1 of
                     (Inl e, s2) \<Rightarrow>
                       (Inl (RuntimeError (''Failed to save results: '' @ exc_str e)), s2)
                   | (Inr u, s2) \<Rightarrow> (Inr results_file, s2))))"

definition get_results ::
  "(string \<Rightarrow> py_exception + 'doc) \<Rightarrow> string \<Rightarrow> fs \<Rightarrow> py_exception + 'doc" where
  "get_results load workflow_id s =
     (let results_file = path_join results_dir (workflow_id @ ''.json'')
      in if \<not> os_path_exists results_file s
         then Inl (FileNotFoundError ''Results file not found'')
         else
           (case open_read results_file s of
              Inl e \<Rightarrow> Inl (RuntimeError (''Failed to read results: '' @ exc_str e))
            | Inr f \<Rightarrow>
                (case global_name ''json'' of
                   Inl e \<Rightarrow> Inl (RuntimeError (''Failed to read results: '' @ exc_str e))
                 | Inr u \<Rightarrow>
                     (case read_data f s of
                        Inl e \<Rightarrow> Inl (RuntimeError (''Failed to read results: '' @ exc_str e))
                      | Inr content \<Rightarrow>
                          (case load content of
                             Inl e \<Rightarrow>
                               Inl (RuntimeError (''Failed to read results: '' @ exc_str e))
                           | Inr doc \<Rightarrow> Inr doc)))))"

text \<open>A plain name: one path component that is not empty, \<open>.\<close> or \<open>..\<close> and holds
  neither a slash nor a NUL.\<close>

definition plain_name :: "string \<Rightarrow> bool" where
  "plain_name n =
     (n \<noteq> [] \<and> n \<noteq> ''.'' \<and> n \<noteq> ''..'' \<and> CHR ''/'' \<notin> set n \<and> \<not> has_nul n)"

section \<open>The specification's reading of a search\<close>

text \<open>
  The specification describes \<open>search_items\<close> by substrings, not by patterns:
  \<open>substring q s\<close> holds when \<open>q\<close> occurs in \<open>s\<close> (Python's \<open>q in s\<close>), and
  \<open>contains_ci lower v q\<close> when it does so in a column value that is not NULL, letter
  case ignored: after \<open>lower\<close> on both. \<open>like_special\<close> are the characters that
  LIKE does not take literally. \<open>ascii_lower\<close> is the \<open>lower\<close> of a database whose
  collation folds the letters A to Z and no other character; the examples use it.
\<close>

fun starts_with :: "string \<Rightarrow> string \<Rightarrow> bool" where
  "starts_with [] s = True"
| "starts_with (p # ps) [] = False"
| "starts_with (p # ps) (c # cs) = (p = c \<and> starts_with ps cs)"

fun substring :: "string \<Rightarrow> string \<Rightarrow> bool" where
  "substring q [] = (q = [])"
| "substring q (c # cs) = (starts_with q (c # cs) \<or> substring q cs)"






section \<open>The specification's formula for the rate\<close>

text \<open>
  The specification gives the rate as \<open>round(100*H/N, 1)\<close>, and 0 for an empty
  table. Read as Python on the two counts: the product of integers, their true division,
  and \<open>round\<close>.
\<close>

definition claimed_match_rate :: "nat \<Rightarrow> nat \<Rightarrow> py_number" where
  "claimed_match_rate h n =
     (if 0 < n then PyFloat (round1 (nearest_double (100 * h) n)) else PyInt 0)"

text \<open>A knowledge base of 80 rows, the first 23 of them with confidence "high".\<close>

definition kb_sample :: "nat \<Rightarrow> kb_row" where
  "kb_sample i =
     \<lparr>kb_id = int i + 1, kb_material_name = ''Washer'', kb_part_number = None,
      kb_description = None, kb_classification_label = None,
      kb_confidence_level = (if i < 23 then Some ''high'' else Some ''low''),
      kb_supplier_info = None, kb_created_at = Some i, kb_workflow_id = None,
      kb_approved_by = None, kb_approved_at = Some i, kb_metadata = None\<rparr>"

definition db80 :: db where
  "db80 = \<lparr>workflows = [], knowledge_base = map kb_sample [0..<80], pending_approvals = []\<rparr>"

section \<open>Example stores\<close>

definition wf1 :: workflow_row where
  "wf1 = \<lparr>wf_id = ''wf-1'', wf_status = ''running'', wf_comparison_mode = ''full'',
          wf_created_at = Some 10, wf_updated_at = Some 12, wf_progress = Some 40,
          wf_current_stage = Some ''extract'', wf_message = Some ''reading'',
          wf_wi_document_path = Some ''/var/data/uploads/wf-1/wi.pdf'',
          wf_item_master_path = None\<rparr>"

definition kb1 :: kb_row where
  "kb1 = \<lparr>kb_id = 1, kb_material_name = ''Steel Bolt'', kb_part_number = Some ''SB-100'',
          kb_description = None, kb_classification_label = Some 3,
          kb_confidence_level = Some ''high'', kb_supplier_info = None,
          kb_created_at = Some 5, kb_workflow_id = Some ''wf-1'', kb_approved_by = None,
          kb_approved_at = Some 5, kb_metadata = None\<rparr>"

definition kb2 :: kb_row where
  "kb2 = \<lparr>kb_id = 2, kb_material_name = ''Copper wire'', kb_part_number = None,
          kb_description = Some ''2mm BOLTED lug'', kb_classification_label = None,
          kb_confidence_level = Some ''low'', kb_supplier_info = None,
          kb_created_at = Some 9, kb_workflow_id = None, kb_approved_by = None,
          kb_approved_at = Some 9, kb_metadata = None\<rparr>"

definition kb3 :: kb_row where
  "kb3 = \<lparr>kb_id = 3, kb_material_name = ''Gasket'', kb_part_number = Some ''G-7'',
          kb_description = Some ''rubber'', kb_classification_label = Some 1,
          kb_confidence_level = Some ''high'', kb_supplier_info = None,
          kb_created_at = Some 7, kb_workflow_id = Some ''wf-1'', kb_approved_by = None,
          kb_approved_at = Some 7, kb_metadata = None\<rparr>"

definition pa1 :: pa_row where
  "pa1 = \<lparr>pa_id = 1, pa_workflow_id = ''wf-1'', pa_item_data = ''{}'',
          pa_status = Some ''pending'', pa_created_at = Some 3, pa_reviewed_by = None,
          pa_reviewed_at = None, pa_review_notes = None\<rparr>"

definition pa2 :: pa_row where
  "pa2 = \<lparr>pa_id = 2, pa_workflow_id = ''wf-2'', pa_item_data = ''{}'',
          pa_status = Some ''pending'', pa_created_at = Some 4, pa_reviewed_by = None,
          pa_reviewed_at = None, pa_review_notes = None\<rparr>"

definition pa3 :: pa_row where
  "pa3 = \<lparr>pa_id = 3, pa_workflow_id = ''wf-1'', pa_item_data = ''{}'',
          pa_status = Some ''approved'', pa_created_at = Some 6, pa_reviewed_by = Some ''alice'',
          pa_reviewed_at = Some 8, pa_review_notes = None\<rparr>"

definition db1 :: db where
  "db1 = \<lparr>workflows = [wf1], knowledge_base = [kb1, kb2, kb3],
          pending_approvals = [pa1, pa2, pa3]\<rparr>"

section \<open>Example file systems\<close>

text \<open>
  \<open>fs0\<close>: the two directories of the service and \<open>/tmp\<close> exist, no file does, and
  nothing fails. \<open>fs_denied\<close>: the same, but no file may be opened for writing, and one
  results file exists. \<open>fs_nodir\<close>: the directory of workflow wf-1 cannot be created.
  \<open>fs_hidden\<close>: a results file exists, and the environment refuses to look at it.
\<close>

definition fs0 :: fs where
  "fs0 = \<lparr>files = Map.empty,
          dirs = {''/var'', ''/var/data'', ''/var/data/uploads'', ''/var/data/results'', ''/tmp''},
          fault = (\<lambda>op. None)\<rparr>"

definition fs_denied :: fs where
  "fs_denied =
     \<lparr>files = [''/var/data/results/wf-9.json'' \<mapsto> ''{}''],
      dirs = {''/var'', ''/var/data'', ''/var/data/uploads'', ''/var/data/results'', ''/tmp''},
      fault = (\<lambda>op. case op of OpenWrite p \<Rightarrow> Some EACCES | _ \<Rightarrow> None)\<rparr>"

definition fs_nodir :: fs where
  "fs_nodir =
     \<lparr>files = Map.empty,
      dirs = {''/var'', ''/var/data'', ''/var/data/uploads'', ''/var/data/results'', ''/tmp''},
      fault = (\<lambda>op. if op = MkDir ''/var/data/uploads/wf-1'' then Some EACCES else None)\<rparr>"

definition fs_hidden :: fs where
  "fs_hidden =
     \<lparr>files = [''/var/data/results/wf-9.json'' \<mapsto> ''{}''],
      dirs = {''/var'', ''/var/data'', ''/var/data/uploads'', ''/var/data/results'', ''/tmp''},
      fault = (\<lambda>op. if op = Stat ''/var/data/results/wf-9.json'' then Some EACCES else None)\<rparr>"

section \<open>Workflow access: create, get, update\<close>





lemma create_workflow_duplicate:
  "k \<in> set (map wf_id (workflows d)) \<Longrightarrow>
     create_workflow k mode wi item now d = Inl (UniqueViolation ''workflows_pkey'')"
  by (simp add: create_workflow_def)

lemma foldl_status_updates:
  "foldl (\<lambda>r' u. assign now u r') r (status_updates status progress stage message) =
     r\<lparr>wf_status := status, wf_updated_at := Some now,
       wf_progress := (case progress of None \<Rightarrow> wf_progress r | Some p \<Rightarrow> Some p),
       wf_current_stage := (if truthy stage then stage else wf_current_stage r),
       wf_message := (if truthy message then message else wf_message r)\<rparr>"
  by (cases progress; cases stage; cases message) (simp_all add: status_updates_def truthy_def)

lemma status_updates_texts:
  "List.map_filter assignment_text (status_updates status progress stage message) =
     [status] @ (if truthy stage then [the stage] else [])
       @ (if truthy message then [the message] else [])"
  by (cases progress) (simp_all add: status_updates_def List.map_filter_def)

lemma status_updates_ints:
  "List.map_filter assignment_int (status_updates status progress stage message) =
     (case progress of None \<Rightarrow> [] | Some p \<Rightarrow> [p])"
  by (cases progress) (simp_all add: status_updates_def List.map_filter_def)

lemma update_workflow_status_accepted:
  assumes "\<not> has_nul k" and "\<not> has_nul status"
    and "\<forall>s. stage = Some s \<longrightarrow> \<not> has_nul s"
    and "\<forall>s. message = Some s \<longrightarrow> \<not> has_nul s"
    and "\<forall>p. progress = Some p \<longrightarrow> in_int4 p"
  shows "update_workflow_status k status progress stage message now d =
     Inr (d\<lparr>workflows :=
       map (\<lambda>r. if wf_id r = k
                 then foldl (\<lambda>r' u. assign now u r') r (status_updates status progress stage message)
                 else r)
         (workflows d)\<rparr>)"
proof -
  have texts: "\<not> list_ex has_nul
      (List.map_filter assignment_text (status_updates status progress stage message) @ [k])"
    using assms(1-4) by (auto simp: status_updates_texts truthy_def split: option.splits)
  have ints: "\<not> list_ex (\<lambda>p. \<not> in_int4 p)
      (List.map_filter assignment_int (status_updates status progress stage message))"
    using assms(5) by (simp add: status_updates_ints split: option.splits)
  show ?thesis
    using texts ints by (simp add: update_workflow_status_def Let_def)
qed

lemma update_workflow_status_out_of_range:
  "\<not> has_nul k \<Longrightarrow> \<not> has_nul status \<Longrightarrow> \<not> in_int4 p \<Longrightarrow>
     update_workflow_status k status (Some p) None None now d =
       Inl (NumericValueOutOfRange ''integer out of range'')"
  by (simp add: update_workflow_status_def Let_def status_updates_texts status_updates_ints
      truthy_def)

text \<open>
  Claim C3, as amended. Let row \<open>i\<close> of \<open>workflows\<close> carry the identifier \<open>k\<close>, let
  none of the texts passed hold a NUL, and let the progress, when one is passed, lie in
  the range of the INTEGER column. Then \<open>update_workflow_status\<close> succeeds. The row has
  the status that was passed, and its \<open>updated_at\<close> is the time \<open>now\<close> of the
  statement, whichever optional arguments were passed. An argument that was omitted
  (\<open>None\<close>) leaves its column as it was: progress is overwritten only by a progress
  that was passed, current_stage and message only by a non-empty string that was
  passed. The identifier, comparison_mode, created_at and the two paths are never
  written, the table keeps its length, and a row with another identifier is unchanged.
\<close>

theorem update_workflow_status_frame:
  assumes "i < length (workflows d)"
    and "wf_id (workflows d ! i) = k"
    and "\<not> has_nul k" and "\<not> has_nul status"
    and "\<forall>s. stage = Some s \<longrightarrow> \<not> has_nul s"
    and "\<forall>s. message = Some s \<longrightarrow> \<not> has_nul s"
    and "\<forall>p. progress = Some p \<longrightarrow> in_int4 p"
  shows "\<exists>d' r'. update_workflow_status k status progress stage message now d = Inr d' \<and>
      workflows d' ! i = r' \<and>
      wf_status r' = status \<and>
      wf_updated_at r' = Some now \<and>
      wf_progress r' = (case progress of None \<Rightarrow> wf_progress (workflows d ! i) | Some p \<Rightarrow> Some p) \<and>
      wf_current_stage r' = (if truthy stage then stage else wf_current_stage (workflows d ! i)) \<and>
      wf_message r' = (if truthy message then message else wf_message (workflows d ! i)) \<and>
      wf_id r' = k \<and>
      wf_comparison_mode r' = wf_comparison_mode (workflows d ! i) \<and>
      wf_created_at r' = wf_created_at (workflows d ! i) \<and>
      wf_wi_document_path r' = wf_wi_document_path (workflows d ! i) \<and>
      wf_item_master_path r' = wf_item_master_path (workflows d ! i) \<and>
      length (workflows d') = length (workflows d) \<and>
      (\<forall>j<length (workflows d). wf_id (workflows d ! j) \<noteq> k \<longrightarrow>
         workflows d' ! j = workflows d ! j)"
  using assms(1,2)
  by (simp add: update_workflow_status_accepted [OF assms(3-7)] foldl_status_updates)

theorem update_workflow_status_frame_witness:
  "update_workflow_status ''wf-1'' ''completed'' (Some 100) None (Some []) 30 db1 =
     Inr (db1\<lparr>workflows := [wf1\<lparr>wf_status := ''completed'', wf_updated_at := Some 30,
                                 wf_progress := Some 100\<rparr>]\<rparr>) \<and>
   wf_current_stage wf1 = Some ''extract'' \<and> wf_message wf1 = Some ''reading''"
proof -
  have h1: "0 < length (workflows db1)" by (simp add: db1_def)
  have h2: "wf_id (workflows db1 ! 0) = ''wf-1''" by (simp add: db1_def wf1_def)
  have h3: "\<not> has_nul ''wf-1''" "\<not> has_nul ''completed''" by (simp_all add: has_nul_def)
  have h4: "\<forall>s. (None :: string option) = Some s \<longrightarrow> \<not> has_nul s" by simp
  have h5: "\<forall>s. Some [] = Some s \<longrightarrow> \<not> has_nul s" by (simp add: has_nul_def)
  have h6: "\<forall>p. Some (100::int) = Some p \<longrightarrow> in_int4 p" by (simp add: in_int4_def)
  from update_workflow_status_frame [OF h1 h2 h3 h4 h5 h6, of 30]
  obtain d' where d': "update_workflow_status ''wf-1'' ''completed'' (Some 100) None (Some []) 30 db1 = Inr d'"
    by blast
  have e: "update_workflow_status ''wf-1'' ''completed'' (Some 100) None (Some []) 30 db1 =
     Inr (db1\<lparr>workflows := [wf1\<lparr>wf_status := ''completed'', wf_updated_at := Some 30,
                                 wf_progress := Some 100\<rparr>]\<rparr>)"
    by (simp add: update_workflow_status_accepted [OF h3 h4 h5 h6] foldl_status_updates
        db1_def truthy_def wf1_def)
  from d' e show ?thesis
    by (simp add: wf1_def)
qed

text \<open>
  The claim as stated asks for an \<open>updated_at\<close> strictly greater than before on every
  call. The row of \<open>db1\<close> carries the stamp 12: a statement whose time is 12 leaves the
  stamp at 12; and a call that passes the progress \<open>2 ^ 31\<close> fails and refreshes
  nothing.
\<close>

theorem update_workflow_status_counterexample:
  "wf_updated_at wf1 = Some 12 \<and>
   update_workflow_status ''wf-1'' ''completed'' None None None 12 db1 =
     Inr (db1\<lparr>workflows := [wf1\<lparr>wf_status := ''completed'', wf_updated_at := Some 12\<rparr>]\<rparr>) \<and>
   update_workflow_status ''wf-1'' ''completed'' (Some (2 ^ 31)) None None 30 db1 =
     Inl (NumericValueOutOfRange ''integer out of range'')"
proof -
  have n: "\<not> has_nul ''wf-1''" "\<not> has_nul ''completed''" by (simp_all add: has_nul_def)
  have a: "update_workflow_status ''wf-1'' ''completed'' None None None 12 db1 =
     Inr (db1\<lparr>workflows := [wf1\<lparr>wf_status := ''completed'', wf_updated_at := Some 12\<rparr>]\<rparr>)"
    by (simp add: update_workflow_status_accepted [OF n] foldl_status_updates db1_def truthy_def
        wf1_def)
  have b: "update_workflow_status ''wf-1'' ''completed'' (Some (2 ^ 31)) None None 30 db1 =
     Inl (NumericValueOutOfRange ''integer out of range'')"
    by (rule update_workflow_status_out_of_range [OF n]) (simp add: in_int4_def)
  from a b show ?thesis by (simp add: wf1_def)
qed

section \<open>Ordering\<close>

lemma set_insert_desc: "set (insert_desc key x ys) = insert x (set ys)"
  by (induction ys) auto

lemma set_order_by_desc: "set (order_by_desc key rows) = set rows"
  by (induction rows) (simp_all add: order_by_desc_def set_insert_desc)







section \<open>Pending approvals\<close>

text \<open>
  Claim C10. \<open>get_pending_items\<close> called with the empty string as workflow_id takes
  the branch without a workflow filter: it returns what the call without a workflow_id
  returns, the rows of \<open>pending_approvals\<close> with status "pending" of every workflow,
  newest first.
\<close>

theorem get_pending_items_empty_id:
  "get_pending_items (Some []) d = get_pending_items None d \<and>
   get_pending_items (Some []) d =
     order_by_desc pa_created_at (filter (\<lambda>r. pa_status r = Some ''pending'') (pending_approvals d)) \<and>
   set (get_pending_items (Some []) d) = {r \<in> set (pending_approvals d). pa_status r = Some ''pending''}"
  by (simp add: get_pending_items_def truthy_def set_order_by_desc)

lemma get_pending_items_empty_id_example:
  "get_pending_items (Some []) db1 = [pa2, pa1] \<and>
   filter (\<lambda>r. pa_workflow_id r = []) (get_pending_items (Some []) db1) = []"
  by (simp add: get_pending_items_def truthy_def db1_def order_by_desc_def pa1_def pa2_def pa3_def)

section \<open>Schema initialisation\<close>

lemma create_table_if_not_exists_idem:
  "create_table_if_not_exists n cols (create_table_if_not_exists n cols c) =
     create_table_if_not_exists n cols c"
  by (simp add: create_table_if_not_exists_def split: option.splits)

lemma dom_create_table: "dom (create_table_if_not_exists n cols c) = insert n (dom c)"
  by (auto simp: create_table_if_not_exists_def split: option.splits)

lemma create_table_keeps: "c m = Some r \<Longrightarrow> create_table_if_not_exists n cols c m = Some r"
  by (auto simp: create_table_if_not_exists_def split: option.splits)

lemma create_table_present:
  "n \<in> dom c \<Longrightarrow> create_table_if_not_exists n cols c = c"
  by (auto simp: create_table_if_not_exists_def split: option.splits)

lemma dom_init_db:
  "dom (init_db c) =
     dom c \<union> {''workflows'', ''knowledge_base'', ''pending_approvals'', ''workflow_results''}"
  by (auto simp: init_db_def dom_create_table)

text \<open>
  Claim C9. From every catalog, \<open>init_db\<close> leads to a catalog that holds the four
  tables workflows, knowledge_base, pending_approvals and workflow_results beside the
  relations that were there, which it leaves as they were; running it again on the
  result changes nothing. No step of it can fail.
\<close>

theorem init_db_idempotent:
  "init_db (init_db c) = init_db c \<and>
   dom (init_db c) =
     dom c \<union> {''workflows'', ''knowledge_base'', ''pending_approvals'', ''workflow_results''} \<and>
   init_db c ++ c = init_db c"
proof -
  let ?c' = "init_db c"
  have d: "dom ?c' = dom c \<union> {''workflows'', ''knowledge_base'', ''pending_approvals'', ''workflow_results''}"
    by (rule dom_init_db)
  have "init_db ?c' = ?c'"
    unfolding init_db_def [of ?c']
    by (simp add: create_table_present d dom_create_table)
  moreover have "?c' ++ c = ?c'"
  proof (rule ext)
    fix m
    show "(?c' ++ c) m = ?c' m"
      by (cases "c m") (simp_all add: map_add_def init_db_def create_table_keeps)
  qed
  ultimately show ?thesis using d by simp
qed

section \<open>Bulk update of approvals\<close>

lemma placeholders_Nil_iff: "placeholders ids = [] \<longleftrightarrow> ids = []"
proof (cases ids)
  case Nil
  then show ?thesis by (simp add: placeholders_def)
next
  case (Cons a as)
  then show ?thesis by (cases as) (simp_all add: placeholders_def)
qed



lemma update_approval_status_nonempty:
  "item_ids \<noteq> [] \<Longrightarrow>
   update_approval_status item_ids status reviewer notes now d =
     (Inr (), [Connect, Execute (approval_sql item_ids)
                 ([opt_text status, opt_text reviewer, opt_text notes] @ map Integer item_ids),
               Commit, CloseCursor, CloseConnection],
      d\<lparr>pending_approvals :=
          map (\<lambda>r. if pa_id r \<in> set item_ids
                    then r\<lparr>pa_status := status, pa_reviewed_by := reviewer,
                           pa_reviewed_at := Some now, pa_review_notes := notes\<rparr>
                    else r)
            (pending_approvals d)\<rparr>)"
  by (simp add: update_approval_status_def in_list_parses_def placeholders_Nil_iff)

section \<open>Searching the knowledge base\<close>

lemma starts_with_iff: "starts_with q s \<longleftrightarrow> (\<exists>b. s = q @ b)"
  by (induction q s rule: starts_with.induct) auto

lemma substring_iff: "substring q s \<longleftrightarrow> (\<exists>a b. s = a @ q @ b)"
proof (induction s)
  case Nil
  then show ?case by auto
next
  case (Cons c cs)
  show ?case
  proof
    assume "substring q (c # cs)"
    then consider "starts_with q (c # cs)" | "substring q cs" by auto
    then show "\<exists>a b. c # cs = a @ q @ b"
    proof cases
      case 1
      then obtain b where "c # cs = q @ b" by (auto simp: starts_with_iff)
      then have "c # cs = [] @ q @ b" by simp
      then show ?thesis by blast
    next
      case 2
      then obtain a b where "cs = a @ q @ b" using Cons.IH by blast
      then have "c # cs = (c # a) @ q @ b" by simp
      then show ?thesis by blast
    qed
  next
    assume "\<exists>a b. c # cs = a @ q @ b"
    then obtain a b where ab: "c # cs = a @ q @ b" by blast
    show "substring q (c # cs)"
    proof (cases a)
      case Nil
      with ab have "starts_with q (c # cs)" by (auto simp: starts_with_iff)
      then show ?thesis by simp
    next
      case (Cons x xs)
      with ab have "cs = xs @ q @ b" by simp
      then have "substring q cs" using Cons.IH by blast
      then show ?thesis by simp
    qed
  qed
qed













lemma search_items_negative_limit:
  "\<not> has_nul q \<Longrightarrow> - (2 ^ 63) \<le> limit \<Longrightarrow> limit < 0 \<Longrightarrow>
     search_items lower q limit d = Inl InvalidRowCountInLimitClause"
  by (simp add: search_items_def limit_rows_def Let_def has_nul_def del: like_match.simps)

lemma search_items_limit_too_large:
  "\<not> has_nul q \<Longrightarrow> 2 ^ 63 \<le> limit \<Longrightarrow>
     search_items lower q limit d = Inl (NumericValueOutOfRange ''bigint out of range'')"
  by (simp add: search_items_def limit_rows_def Let_def has_nul_def del: like_match.simps)

section \<open>Result documents\<close>

lemma global_name_json: "global_name ''json'' = Inl (NameError ''json'')"
  by (simp add: global_name_def module_names_def)

lemma upload_dir_eq: "upload_dir = ''/var/data/uploads''"
  by (simp add: upload_dir_def base_dir_def path_join_def)

lemma results_dir_eq: "results_dir = ''/var/data/results''"
  by (simp add: results_dir_def base_dir_def path_join_def)

lemma results_path_eq:
  "path_join results_dir ''wf-1.json'' = ''/var/data/results/wf-1.json''"
  by (simp add: results_dir_eq path_join_def)

lemma open_write_error_kind:
  "open_write p s = (Inl e, s1) \<Longrightarrow>
     e = ValueError ''embedded null byte'' \<or> (\<exists>errno. e = OSError errno (Some p))"
  by (auto simp: open_write_def split: option.splits if_splits sum.splits)

lemma open_read_error_kind:
  "open_read p s = Inl e \<Longrightarrow>
     e = ValueError ''embedded null byte'' \<or> (\<exists>errno. e = OSError errno (Some p))"
  by (auto simp: open_read_def split: option.splits if_splits sum.splits)

lemma save_results_never_returns:
  "\<exists>cause s'. save_results dump workflow_id results_data s =
      (Inl (RuntimeError (''Failed to save results: '' @ exc_str cause)), s')"
proof (cases "open_write (path_join results_dir (workflow_id @ ''.json'')) s")
  case (Pair r s1)
  show ?thesis
  proof (cases r)
    case (Inl e)
    with Pair have "save_results dump workflow_id results_data s =
        (Inl (RuntimeError (''Failed to save results: '' @ exc_str e)), s1)"
      by (simp add: save_results_def)
    then show ?thesis by blast
  next
    case (Inr f)
    with Pair have "save_results dump workflow_id results_data s =
        (Inl (RuntimeError (''Failed to save results: '' @ exc_str (NameError ''json''))), s1)"
      by (simp add: save_results_def global_name_json)
    then show ?thesis by blast
  qed
qed

lemma get_results_never_returns:
  "get_results load workflow_id s = Inl (FileNotFoundError ''Results file not found'') \<or>
   (\<exists>cause. get_results load workflow_id s =
      Inl (RuntimeError (''Failed to read results: '' @ exc_str cause)))"
proof (cases "os_path_exists (path_join results_dir (workflow_id @ ''.json'')) s")
  case False
  then show ?thesis by (simp add: get_results_def)
next
  case True
  show ?thesis
  proof (cases "open_read (path_join results_dir (workflow_id @ ''.json'')) s")
    case (Inl e)
    with True have "get_results load workflow_id s =
        Inl (RuntimeError (''Failed to read results: '' @ exc_str e))"
      by (simp add: get_results_def)
    then show ?thesis by blast
  next
    case (Inr f)
    with True have "get_results load workflow_id s =
        Inl (RuntimeError (''Failed to read results: '' @ exc_str (NameError ''json'')))"
      by (simp add: get_results_def global_name_json)
    then show ?thesis by blast
  qed
qed

lemma resolve_results_file:
  "dirs s = dirs fs0 \<Longrightarrow>
     resolve s ''/var/data/results/wf-1.json'' = Inr ''/var/data/results/wf-1.json''"
  by (simp add: resolve_def is_dir_def fs0_def)

text \<open>
  Claim C2 asks that \<open>save_results\<close> returns the path of the file it wrote and that
  \<open>get_results\<close> then returns the document. The module never imports \<open>json\<close>:
  on the file system \<open>fs0\<close>, where nothing fails, \<open>save_results\<close> opens (and so
  empties) the results file and raises RuntimeError for the NameError of
  \<open>json.dump\<close>, whatever the document and the serializer; \<open>get_results\<close> on the
  file system it leaves raises RuntimeError for the NameError of \<open>json.load\<close>.
\<close>

theorem save_results_name_error:
  "save_results dump ''wf-1'' results_data fs0 =
     (Inl (RuntimeError (''Failed to save results: name '' @ [CHR 0x27] @ ''json'' @ [CHR 0x27]
        @ '' is not defined'')),
      fs0\<lparr>files := [''/var/data/results/wf-1.json'' \<mapsto> []]\<rparr>) \<and>
   get_results load ''wf-1'' (fs0\<lparr>files := [''/var/data/results/wf-1.json'' \<mapsto> []]\<rparr>) =
     Inl (RuntimeError (''Failed to read results: name '' @ [CHR 0x27] @ ''json'' @ [CHR 0x27]
        @ '' is not defined''))"
proof -
  let ?p = "''/var/data/results/wf-1.json''"
  let ?s1 = "fs0\<lparr>files := [?p \<mapsto> []]\<rparr>"
  have r0: "resolve fs0 ?p = Inr ?p"
    by (rule resolve_results_file) simp
  have r1: "resolve ?s1 ?p = Inr ?p"
    by (rule resolve_results_file) simp
  have nd: "\<not> is_dir fs0 ?p" "\<not> is_dir ?s1 ?p"
    by (simp_all add: is_dir_def fs0_def)
  have nn: "\<not> has_nul ?p"
    by (simp add: has_nul_def)
  have f0: "fault fs0 op = None" "files fs0 = Map.empty" for op
    by (simp_all add: fs0_def)
  have a: "open_write ?p fs0 = (Inr ?p, ?s1)"
    by (simp add: open_write_def r0 nd nn f0)
  have b: "os_path_exists ?p ?s1"
    by (simp add: os_path_exists_def os_stat_def r1 nd nn f0)
  have c: "open_read ?p ?s1 = Inr ?p"
    by (simp add: open_read_def r1 nd nn f0)
  show ?thesis
    by (simp add: save_results_def get_results_def results_path_eq a b c global_name_json)
qed

section \<open>Failures of the artifact store\<close>

lemmas os_eval = os_makedirs.simps makedirs_split_def posix_split_def rstrip_slash_def Let_def
  os_path_exists_def os_path_isdir_def os_stat_def resolve_def is_dir_def has_nul_def
  mkdir_exist_ok_def os_mkdir_def is_file_exists_error_def parent_dir_def

text \<open>
  Claim C6 asks that every failure of a save is raised as the error that wraps its cause,
  and that a missing results file is told apart from every other failure.
  \<open>os.makedirs\<close> stands before the \<open>try\<close> of \<open>save_file\<close>: on \<open>fs_nodir\<close>,
  where the directory of the workflow cannot be created, \<open>save_file\<close> raises the
  PermissionError itself. \<open>os.path.exists\<close> answers \<open>False\<close> when it may not look at
  the file: on \<open>fs_hidden\<close>, where the results file exists, \<open>get_results\<close> raises
  FileNotFoundError.
\<close>

theorem save_file_makedirs_failure:
  "save_file \<lparr>filename = Some ''a.txt'', file_stream = Inr ''abc''\<rparr> ''wf-1'' fs_nodir =
     (Inl (OSError EACCES (Some ''/var/data/uploads/wf-1'')), fs_nodir) \<and>
   files fs_hidden ''/var/data/results/wf-9.json'' = Some ''{}'' \<and>
   get_results load ''wf-9'' fs_hidden = Inl (FileNotFoundError ''Results file not found'')"
proof -
  have a: "os_makedirs ''/var/data/uploads/wf-1'' fs_nodir =
      (Inl (OSError EACCES (Some ''/var/data/uploads/wf-1'')), fs_nodir)"
    by (simp add: os_eval fs_nodir_def)
  have b: "\<not> os_path_exists ''/var/data/results/wf-9.json'' fs_hidden"
    by (simp add: os_path_exists_def os_stat_def has_nul_def fs_hidden_def)
  show ?thesis
    by (simp add: save_file_def Let_def upload_dir_eq path_join_def a get_results_def
        results_dir_eq b)
       (simp add: fs_hidden_def)
qed

text \<open>
  The calls inside the \<open>try\<close> are wrapped: on \<open>fs_denied\<close>, where the file cannot
  be opened, \<open>save_file\<close> raises RuntimeError with the text of the PermissionError.
\<close>

lemma save_file_open_failure_wrapped:
  "save_file \<lparr>filename = Some ''a.txt'', file_stream = Inr ''abc''\<rparr> ''wf-1'' fs_denied =
     (Inl (RuntimeError (''Failed to save file: '' @
        exc_str (OSError EACCES (Some ''/var/data/uploads/wf-1/a.txt'')))),
      fs_denied\<lparr>dirs := insert ''/var/data/uploads/wf-1'' (dirs fs_denied)\<rparr>)"
proof -
  have a: "os_makedirs ''/var/data/uploads/wf-1'' fs_denied =
      (Inr (), fs_denied\<lparr>dirs := insert ''/var/data/uploads/wf-1'' (dirs fs_denied)\<rparr>)"
    by (simp add: os_eval fs_denied_def)
  have b: "open_write ''/var/data/uploads/wf-1/a.txt''
        (fs_denied\<lparr>dirs := insert ''/var/data/uploads/wf-1'' (dirs fs_denied)\<rparr>) =
      (Inl (OSError EACCES (Some ''/var/data/uploads/wf-1/a.txt'')),
       fs_denied\<lparr>dirs := insert ''/var/data/uploads/wf-1'' (dirs fs_denied)\<rparr>)"
    by (simp add: open_write_def has_nul_def fs_denied_def)
  show ?thesis
    by (simp add: save_file_def Let_def upload_dir_eq path_join_def a b)
qed

section \<open>Uploads\<close>

lemma split_slash_plain: "CHR ''/'' \<notin> set w \<Longrightarrow> split_slash w = [w]"
  by (induction w) auto

lemma split_slash_append:
  "CHR ''/'' \<notin> set w \<Longrightarrow> split_slash (w @ CHR ''/'' # r) = w # split_slash r"
  by (induction w) auto

lemma rstrip_slash_id: "p \<noteq> [] \<Longrightarrow> last p \<noteq> CHR ''/'' \<Longrightarrow> rstrip_slash p = p"
proof -
  assume "p \<noteq> []" and "last p \<noteq> CHR ''/''"
  then obtain x xs where r: "rev p = x # xs" and "x \<noteq> CHR ''/''"
    by (cases "rev p") (auto simp: last_rev [symmetric] hd_rev)
  then have "dropWhile (\<lambda>c. c = CHR ''/'') (rev p) = rev p" by simp
  then show ?thesis by (simp add: rstrip_slash_def)
qed

lemma posix_split_child:
  assumes "CHR ''/'' \<notin> set w" and "h \<noteq> []" and "last h \<noteq> CHR ''/''"
  shows "posix_split (h @ ''/'' @ w) = (h, w)"
proof -
  have r: "rev (h @ ''/'' @ w) = rev w @ CHR ''/'' # rev h" by simp
  have t: "takeWhile (\<lambda>c. c \<noteq> CHR ''/'') (rev w @ CHR ''/'' # rev h) = rev w"
    using assms(1) by (auto simp: takeWhile_tail)
  have "dropWhile (\<lambda>c. c \<noteq> CHR ''/'') (rev w @ CHR ''/'' # rev h) =
      dropWhile (\<lambda>c. c \<noteq> CHR ''/'') (rev w) @ CHR ''/'' # rev h"
    by (simp add: dropWhile_append3)
  moreover have "dropWhile (\<lambda>c. c \<noteq> CHR ''/'') (rev w) = []"
    using assms(1) by auto
  ultimately have d: "dropWhile (\<lambda>c. c \<noteq> CHR ''/'') (rev w @ CHR ''/'' # rev h) = CHR ''/'' # rev h"
    by simp
  have "rstrip_slash (h @ ''/'') = rstrip_slash h"
    by (simp add: rstrip_slash_def)
  then have s: "rstrip_slash (h @ ''/'') = h"
    using assms(2,3) by (simp add: rstrip_slash_id)
  show ?thesis
    unfolding posix_split_def r t d Let_def
    using s assms(2) by simp
qed

lemma plain_nameD:
  "plain_name n \<Longrightarrow>
     n \<noteq> [] \<and> n \<noteq> ''.'' \<and> n \<noteq> ''..'' \<and> CHR ''/'' \<notin> set n \<and> \<not> has_nul n"
  by (simp add: plain_name_def)

lemma plain_name_last: "plain_name n \<Longrightarrow> last n \<noteq> CHR ''/''"
  by (metis last_in_set plain_name_def)

lemma resolve_workflow_dir:
  assumes "plain_name wid"
    and "''/var'' \<in> dirs s" and "''/var/data'' \<in> dirs s" and "''/var/data/uploads'' \<in> dirs s"
  shows "resolve s (''/var/data/uploads/'' @ wid) = Inr (''/var/data/uploads/'' @ wid)"
  using assms plain_nameD [OF assms(1)]
  by (simp add: resolve_def is_dir_def split_slash_plain)

lemma resolve_upload_file:
  assumes "plain_name wid" and "plain_name name"
    and "''/var'' \<in> dirs s" and "''/var/data'' \<in> dirs s" and "''/var/data/uploads'' \<in> dirs s"
    and "''/var/data/uploads/'' @ wid \<in> dirs s"
  shows "resolve s (''/var/data/uploads/'' @ wid @ ''/'' @ name) =
     Inr (''/var/data/uploads/'' @ wid @ ''/'' @ name)"
  using assms(3-6) plain_nameD [OF assms(1)] plain_nameD [OF assms(2)]
  by (simp add: resolve_def is_dir_def split_slash_plain split_slash_append)

lemma os_makedirs_workflow_dir:
  assumes "plain_name wid"
    and "''/var'' \<in> dirs s" and "''/var/data'' \<in> dirs s" and "''/var/data/uploads'' \<in> dirs s"
    and "files s (''/var/data/uploads/'' @ wid) = None"
    and "fault s (Stat ''/var/data/uploads'') = None"
    and "fault s (MkDir (''/var/data/uploads/'' @ wid)) = None"
    and "fault s (Stat (''/var/data/uploads/'' @ wid)) = None"
  shows "os_makedirs (''/var/data/uploads/'' @ wid) s =
     (Inr (), s\<lparr>dirs := insert (''/var/data/uploads/'' @ wid) (dirs s)\<rparr>)"
proof -
  define wp where "wp = ''/var/data/uploads/'' @ wid"
  note pn = plain_nameD [OF assms(1)]
  have wp: "wp = ''/var/data/uploads'' @ ''/'' @ wid" by (simp add: wp_def)
  have sp: "posix_split wp = (''/var/data/uploads'', wid)"
    unfolding wp by (rule posix_split_child) (use pn in simp_all)
  have ms: "makedirs_split wp = (''/var/data/uploads'', wid)"
    using pn by (simp add: makedirs_split_def sp)
  have ex: "os_path_exists ''/var/data/uploads'' s"
    using assms(2-4,6)
    by (simp add: os_path_exists_def os_stat_def has_nul_def resolve_def is_dir_def)
  have step: "os_makedirs wp s = mkdir_exist_ok wp s"
    by (subst os_makedirs.simps) (simp add: ms ex)
  have nn: "\<not> has_nul wp"
    using pn by (simp add: has_nul_def wp_def)
  have ne: "wp \<noteq> []" by (simp add: wp_def)
  have rs: "rstrip_slash wp = wp"
    by (rule rstrip_slash_id) (use pn plain_name_last [OF assms(1)] in \<open>simp_all add: wp_def\<close>)
  have res: "resolve s wp = Inr wp"
    unfolding wp_def by (rule resolve_workflow_dir [OF assms(1-4)])
  have f: "files s wp = None" "fault s (MkDir wp) = None" "fault s (Stat wp) = None"
    using assms(5,7,8) by (simp_all add: wp_def)
  have "os_makedirs wp s = (Inr (), s\<lparr>dirs := insert wp (dirs s)\<rparr>)"
  proof (cases "wp \<in> dirs s")
    case True
    have mk: "os_mkdir wp s = (Inl (OSError EEXIST (Some wp)), s)"
      using True by (simp add: os_mkdir_def nn f rs res ne is_dir_def)
    have isd: "os_path_isdir wp s"
      using True by (simp add: os_path_isdir_def os_stat_def nn f res is_dir_def)
    have "s\<lparr>dirs := insert wp (dirs s)\<rparr> = s"
      using True by (simp add: insert_absorb)
    with mk isd step show ?thesis
      by (simp add: mkdir_exist_ok_def)
  next
    case False
    have mk: "os_mkdir wp s = (Inr (), s\<lparr>dirs := insert wp (dirs s)\<rparr>)"
      using False by (simp add: os_mkdir_def nn f rs res ne is_dir_def)
    with step show ?thesis
      by (simp add: mkdir_exist_ok_def)
  qed
  then show ?thesis
    by (simp only: wp_def)
qed

lemma plain_name_not_absolute: "plain_name n \<Longrightarrow> take 1 n \<noteq> ''/''"
  by (cases n) (auto simp: plain_name_def)

lemma save_file_step:
  assumes "plain_name wid" and "plain_name name"
    and "filename file = Some name" and "file_stream file = Inr content"
    and "''/var'' \<in> dirs s" and "''/var/data'' \<in> dirs s" and "''/var/data/uploads'' \<in> dirs s"
    and "wp = ''/var/data/uploads/'' @ wid" and "fp = wp @ ''/'' @ name"
    and "files s wp = None" and "fp \<notin> dirs s"
    and "fault s (Stat ''/var/data/uploads'') = None"
    and "fault s (MkDir wp) = None" and "fault s (Stat wp) = None"
    and "fault s (OpenWrite fp) = None" and "fault s (WriteData fp) = None"
  shows "save_file file wid s =
     (Inr fp, s\<lparr>dirs := insert wp (dirs s), files := (files s)(fp \<mapsto> content)\<rparr>)"
proof -
  note pw = plain_nameD [OF assms(1)] and pn = plain_nameD [OF assms(2)]
  let ?s0 = "s\<lparr>dirs := insert wp (dirs s)\<rparr>"
  have j1: "path_join upload_dir wid = wp"
    using plain_name_not_absolute [OF assms(1)]
    by (simp add: path_join_def upload_dir_eq assms(8))
  have wp_ne: "wp \<noteq> []" and wp_last: "last wp \<noteq> CHR ''/''"
    using pw plain_name_last [OF assms(1)] by (simp_all add: assms(8))
  have j2: "path_join wp name = fp"
    using plain_name_not_absolute [OF assms(2)] wp_ne wp_last
    by (simp add: path_join_def assms(9))
  have mk: "os_makedirs wp s = (Inr (), ?s0)"
    unfolding assms(8)
    by (rule os_makedirs_workflow_dir [OF assms(1,5,6,7)])
       (use assms(10,12,13,14) in \<open>simp_all add: assms(8)\<close>)
  have neq: "fp \<noteq> wp" "fp \<noteq> []"
    by (simp_all add: assms(9))
  have nn: "\<not> has_nul fp"
    using pw pn by (simp add: has_nul_def assms(8,9))
  have res: "resolve ?s0 fp = Inr fp"
  proof -
    have "resolve ?s0 (''/var/data/uploads/'' @ wid @ ''/'' @ name) =
        Inr (''/var/data/uploads/'' @ wid @ ''/'' @ name)"
      by (rule resolve_upload_file [OF assms(1,2)]) (use assms(5,6,7) in \<open>simp_all add: assms(8)\<close>)
    then show ?thesis by (simp add: assms(8,9))
  qed
  have nd: "\<not> is_dir ?s0 fp"
    using assms(11) neq by (simp add: is_dir_def)
  have op: "open_write fp ?s0 = (Inr fp, ?s0\<lparr>files := (files s)(fp \<mapsto> [])\<rparr>)"
    using assms(15) by (simp add: open_write_def nn res nd)
  have wr: "write_data fp content (?s0\<lparr>files := (files s)(fp \<mapsto> [])\<rparr>) =
      (Inr (), ?s0\<lparr>files := (files s)(fp \<mapsto> content)\<rparr>)"
    using assms(16) by (simp add: write_data_def)
  show ?thesis
    by (simp add: save_file_def Let_def j1 j2 mk assms(3,4) op wr)
qed

text \<open>
  Claim C8, as amended. Let the workflow identifier and the file name be plain names
  and let the stream of the upload give its bytes. Let the directories \<open>/var\<close>,
  \<open>/var/data\<close> and \<open>/var/data/uploads\<close> exist, let \<open>wp\<close>, the directory of the
  workflow under uploads, not be a regular file and \<open>fp\<close>, the file name inside
  \<open>wp\<close>, not be a directory, and let the environment refuse none of the calls:
  looking at the uploads directory and at \<open>wp\<close>, creating \<open>wp\<close>, opening and
  writing \<open>fp\<close>. Then \<open>save_file\<close> returns \<open>fp\<close>; \<open>wp\<close> is a directory
  afterwards and no other directory has appeared; the file \<open>fp\<close> holds the bytes of
  the stream and no other file has changed. Saving again under the same name returns
  the same path, leaves the directories as they are, and the file then holds the new
  bytes: it is overwritten, no second file appears.
\<close>

theorem save_file_writes:
  assumes "plain_name wid" and "plain_name name"
    and "filename file = Some name" and "file_stream file = Inr content"
    and "''/var'' \<in> dirs s" and "''/var/data'' \<in> dirs s" and "''/var/data/uploads'' \<in> dirs s"
    and "wp = ''/var/data/uploads/'' @ wid" and "fp = wp @ ''/'' @ name"
    and "files s wp = None" and "fp \<notin> dirs s"
    and "fault s (Stat ''/var/data/uploads'') = None"
    and "fault s (MkDir wp) = None" and "fault s (Stat wp) = None"
    and "fault s (OpenWrite fp) = None" and "fault s (WriteData fp) = None"
  shows "\<exists>s1 s2.
     save_file file wid s = (Inr fp, s1) \<and>
     files s1 = (files s)(fp \<mapsto> content) \<and>
     dirs s1 = insert wp (dirs s) \<and>
     save_file (file\<lparr>file_stream := Inr again\<rparr>) wid s1 = (Inr fp, s2) \<and>
     files s2 = (files s)(fp \<mapsto> again) \<and>
     dirs s2 = dirs s1"
proof -
  let ?s1 = "s\<lparr>dirs := insert wp (dirs s), files := (files s)(fp \<mapsto> content)\<rparr>"
  let ?s2 = "?s1\<lparr>dirs := insert wp (dirs ?s1), files := (files ?s1)(fp \<mapsto> again)\<rparr>"
  have first: "save_file file wid s = (Inr fp, ?s1)"
    by (rule save_file_step [OF assms])
  have neq: "fp \<noteq> wp"
    by (simp add: assms(9))
  have second: "save_file (file\<lparr>file_stream := Inr again\<rparr>) wid ?s1 = (Inr fp, ?s2)"
    by (rule save_file_step [OF assms(1,2) _ _ _ _ _ assms(8,9)])
       (use assms neq in simp_all)
  from first second show ?thesis
    by (intro exI [of _ ?s1] exI [of _ ?s2]) simp
qed

theorem save_file_writes_witness:
  "\<exists>s1 s2.
     save_file \<lparr>filename = Some ''a.txt'', file_stream = Inr ''abc''\<rparr> ''wf-1'' fs0 =
       (Inr ''/var/data/uploads/wf-1/a.txt'', s1) \<and>
     files s1 = [''/var/data/uploads/wf-1/a.txt'' \<mapsto> ''abc''] \<and>
     dirs s1 = insert ''/var/data/uploads/wf-1'' (dirs fs0) \<and>
     save_file \<lparr>filename = Some ''a.txt'', file_stream = Inr ''xyz''\<rparr> ''wf-1'' s1 =
       (Inr ''/var/data/uploads/wf-1/a.txt'', s2) \<and>
     files s2 = [''/var/data/uploads/wf-1/a.txt'' \<mapsto> ''xyz''] \<and>
     dirs s2 = dirs s1"
proof -
  let ?file = "\<lparr>filename = Some ''a.txt'', file_stream = Inr ''abc''\<rparr>"
  let ?wp = "''/var/data/uploads/wf-1''"
  let ?fp = "''/var/data/uploads/wf-1/a.txt''"
  have h1: "plain_name ''wf-1''" "plain_name ''a.txt''"
    by (simp_all add: plain_name_def has_nul_def)
  have h2: "filename ?file = Some ''a.txt''" "file_stream ?file = Inr ''abc''"
    by simp_all
  have h3: "''/var'' \<in> dirs fs0" "''/var/data'' \<in> dirs fs0" "''/var/data/uploads'' \<in> dirs fs0"
    by (simp_all add: fs0_def)
  have h4: "?wp = ''/var/data/uploads/'' @ ''wf-1''" "?fp = ?wp @ ''/'' @ ''a.txt''"
    by simp_all
  have h5: "files fs0 ?wp = None" "?fp \<notin> dirs fs0"
    by (simp_all add: fs0_def)
  have h6: "fault fs0 (Stat ''/var/data/uploads'') = None" "fault fs0 (MkDir ?wp) = None"
    "fault fs0 (Stat ?wp) = None" "fault fs0 (OpenWrite ?fp) = None"
    "fault fs0 (WriteData ?fp) = None"
    by (simp_all add: fs0_def)
  have e: "files fs0 = Map.empty"
    by (simp add: fs0_def)
  from save_file_writes [OF h1 h2 h3 h4 h5 h6, of "''xyz''"]
  obtain s1 s2 where
    "save_file ?file ''wf-1'' fs0 = (Inr ?fp, s1)"
    "files s1 = (files fs0)(?fp \<mapsto> ''abc'')"
    "dirs s1 = insert ?wp (dirs fs0)"
    "save_file (?file\<lparr>file_stream := Inr ''xyz''\<rparr>) ''wf-1'' s1 = (Inr ?fp, s2)"
    "files s2 = (files fs0)(?fp \<mapsto> ''xyz'')"
    "dirs s2 = dirs s1"
    by blast
  then show ?thesis
    by (intro exI [of _ s1] exI [of _ s2]) (simp add: e)
qed

text \<open>
  \<open>os.path.join\<close> drops what comes before an absolute component, and the operating
  system follows \<open>..\<close>. On \<open>fs0\<close> the upload named \<open>/tmp/x\<close> is written to
  \<open>/tmp/x\<close>, and the upload named \<open>../x\<close> to \<open>/var/data/uploads/x\<close>: neither file is
  inside the directory of the workflow.
\<close>

theorem save_file_outside_counterexample:
  "save_file \<lparr>filename = Some ''/tmp/x'', file_stream = Inr ''abc''\<rparr> ''wf-1'' fs0 =
     (Inr ''/tmp/x'',
      fs0\<lparr>dirs := insert ''/var/data/uploads/wf-1'' (dirs fs0),
          files := [''/tmp/x'' \<mapsto> ''abc'']\<rparr>) \<and>
   save_file \<lparr>filename = Some ''../x'', file_stream = Inr ''abc''\<rparr> ''wf-1'' fs0 =
     (Inr ''/var/data/uploads/wf-1/../x'',
      fs0\<lparr>dirs := insert ''/var/data/uploads/wf-1'' (dirs fs0),
          files := [''/var/data/uploads/x'' \<mapsto> ''abc'']\<rparr>)"
proof -
  let ?s0 = "fs0\<lparr>dirs := insert ''/var/data/uploads/wf-1'' (dirs fs0)\<rparr>"
  have mk: "os_makedirs ''/var/data/uploads/wf-1'' fs0 = (Inr (), ?s0)"
    by (simp add: os_eval fs0_def)
  have o1: "open_write ''/tmp/x'' ?s0 = (Inr ''/tmp/x'', ?s0\<lparr>files := [''/tmp/x'' \<mapsto> []]\<rparr>)"
    by (simp add: open_write_def has_nul_def resolve_def is_dir_def fs0_def)
  have o2: "open_write ''/var/data/uploads/wf-1/../x'' ?s0 =
      (Inr ''/var/data/uploads/x'', ?s0\<lparr>files := [''/var/data/uploads/x'' \<mapsto> []]\<rparr>)"
    by (simp add: open_write_def has_nul_def resolve_def is_dir_def parent_dir_def fs0_def)
  have w1: "write_data ''/tmp/x'' ''abc'' (?s0\<lparr>files := [''/tmp/x'' \<mapsto> []]\<rparr>) =
      (Inr (), ?s0\<lparr>files := [''/tmp/x'' \<mapsto> ''abc'']\<rparr>)"
    by (simp add: write_data_def fs0_def)
  have w2: "write_data ''/var/data/uploads/x'' ''abc''
        (?s0\<lparr>files := [''/var/data/uploads/x'' \<mapsto> []]\<rparr>) =
      (Inr (), ?s0\<lparr>files := [''/var/data/uploads/x'' \<mapsto> ''abc'']\<rparr>)"
    by (simp add: write_data_def fs0_def)
  show ?thesis
    by (simp add: save_file_def Let_def upload_dir_eq path_join_def mk o1 o2 w1 w2)
qed

section \<open>Statistics of the knowledge base\<close>

lemmas float_eval = nearest_double_def rne_div_def Let_def bit_length.simps

lemma set_map_filter: "set (List.map_filter f xs) = {y. \<exists>x\<in>set xs. f x = Some y}"
proof (induction xs)
  case Nil
  then show ?case by (simp add: List.map_filter_def)
next
  case (Cons x xs)
  have "List.map_filter f (x # xs) =
      (case f x of None \<Rightarrow> List.map_filter f xs | Some y \<Rightarrow> y # List.map_filter f xs)"
    by (simp add: List.map_filter_def split: option.splits)
  with Cons show ?case
    by (cases "f x") auto
qed

lemma distinct_count:
  "length (remdups (List.map_filter f xs)) = card {y. \<exists>x\<in>set xs. f x = Some y}"
  by (simp add: length_remdups_card_conv set_map_filter)

text \<open>
  Claim C5, as amended. On every table \<open>get_stats\<close> returns, without a division by
  zero: total_items and total_matches, both the number N of rows; total_workflows, the
  number of different workflow_id values that are not NULL; and match_rate, which is
  the integer 0 when N = 0 and otherwise \<open>round(H / N * 100, 1)\<close> as Python computes
  it for the number H of rows with confidence_level "high": the float nearest to H / N,
  the float nearest to its product with 100, and that float rounded to one decimal.
\<close>

theorem get_stats_values:
  "get_stats d =
     Some \<lparr>total_items = int (length (knowledge_base d)),
           total_workflows =
             int (card {w. \<exists>r\<in>set (knowledge_base d). kb_workflow_id r = Some w}),
           total_matches = int (length (knowledge_base d)),
           match_rate =
             (if length (knowledge_base d) = 0 then PyInt 0
              else PyFloat (round1 (float_mul
                     (nearest_double
                        (length (filter (\<lambda>r. kb_confidence_level r = Some ''high'')
                                   (knowledge_base d)))
                        (length (knowledge_base d)))
                     100)))\<rparr>"
proof (cases "knowledge_base d = []")
  case True
  then show ?thesis
    by (simp add: get_stats_def List.map_filter_def)
next
  case False
  then have "0 < length (knowledge_base d)" by simp
  then show ?thesis
    by (simp add: get_stats_def Let_def true_div_def distinct_count del: float_mul.simps round1.simps)
qed

lemma filter_less_upt: "length (filter (\<lambda>i. i < k) [0..<n]) = min k n"
  by (induction n) auto

lemma db80_counts:
  "length (knowledge_base db80) = 80 \<and>
   length (filter (\<lambda>r. kb_confidence_level r = Some ''high'') (knowledge_base db80)) = 23"
proof -
  have "(\<lambda>r. kb_confidence_level r = Some ''high'') \<circ> kb_sample = (\<lambda>i. i < 23)"
    by (rule ext) (simp add: kb_sample_def)
  then show ?thesis
    by (simp add: db80_def filter_map filter_less_upt)
qed

lemma rate_23_80:
  "round1 (float_mul (nearest_double 23 80) 100) = Float 8078331831595827 (-48)"
  by (simp add: float_eval)

text \<open>
  The rate is not always \<open>round(100*H/N, 1)\<close>. With 23 of 80 rows "high" the
  percentage is 28.75; the quotient 23 / 80 is not a float, its product with 100 falls
  just below 28.75, and \<open>get_stats\<close> returns the float 28.7, where the
  specification's formula gives the float 28.8.
\<close>

theorem get_stats_rate_counterexample:
  "length (knowledge_base db80) = 80 \<and>
   length (filter (\<lambda>r. kb_confidence_level r = Some ''high'') (knowledge_base db80)) = 23 \<and>
   map_option match_rate (get_stats db80) = Some (PyFloat (Float 8078331831595827 (-48))) \<and>
   claimed_match_rate 23 80 = PyFloat (Float 8106479329266893 (-48)) \<and>
   nearest_double 287 10 = Float 8078331831595827 (-48) \<and>
   nearest_double 288 10 = Float 8106479329266893 (-48)"
proof -
  have "map_option match_rate (get_stats db80) =
      Some (PyFloat (round1 (float_mul (nearest_double 23 80) 100)))"
    using db80_counts
    by (simp add: get_stats_def Let_def true_div_def del: float_mul.simps round1.simps)
  then have a: "map_option match_rate (get_stats db80) = Some (PyFloat (Float 8078331831595827 (-48)))"
    by (simp only: rate_23_80)
  have b: "claimed_match_rate 23 80 = PyFloat (Float 8106479329266893 (-48))"
    by (simp add: claimed_match_rate_def float_eval)
  have c: "nearest_double 287 10 = Float 8078331831595827 (-48)"
    "nearest_double 288 10 = Float 8106479329266893 (-48)"
    by (simp_all add: float_eval)
  from a b c db80_counts show ?thesis by blast
qed

end
